theory Spec2Isabelle
  imports Complex_Main "HOL-Library.List_Lexorder" "HOL-Library.Char_ord"
begin

section \<open>video\_watermark.py: numbers, configuration and data\<close>

text \<open>
  Python integers are unbounded and are modelled as \<open>int\<close>. Python floats are
  modelled as \<open>real\<close>: the float expressions of the script are products, quotients
  and differences of integers, configuration constants and random draws, and the model
  computes them exactly; the rounding error of binary floating point is not modelled.
  In the sample runs below every such value is either exact in binary floating point
  or far from the next integer, so that the script computes the same integers.
  \<open>int(x)\<close> on a float drops the fractional part (truncation toward zero),
  \<open>math.ceil\<close> is the ceiling, \<open>//\<close> on integers is floor division.
\<close>

definition py_int :: "real \<Rightarrow> int" where
  "py_int x = (if 0 \<le> x then \<lfloor>x\<rfloor> else \<lceil>x\<rceil>)"

text \<open>The module-level parameters (lines 26--31), gathered in one record.\<close>

record config =
  WM_REL_WIDTH :: real
  WM_OPACITY :: real
  ROTATE_DEG_RANGE :: real
  SCALE_VARIATION :: real
  MARGIN_X :: real
  MARGIN_Y :: real

definition module_config :: config where
  "module_config =
     \<lparr>WM_REL_WIDTH = 25 / 100, WM_OPACITY = 1 / 10, ROTATE_DEG_RANGE = 8,
      SCALE_VARIATION = 15 / 100, MARGIN_X = 5 / 100, MARGIN_Y = 5 / 10\<rparr>"

text \<open>
  An RGBA image: its size \<open>(width, height)\<close> and its pixels, read by coordinate
  as \<open>getpixel\<close> does. A pixel is \<open>(r, g, b, a)\<close>, each channel a value 0..255.
\<close>

type_synonym pixel = "nat \<times> nat \<times> nat \<times> nat"

record image =
  im_size :: "int \<times> int"
  im_data :: "int \<times> int \<Rightarrow> pixel"

datatype exn = RuntimeError | ZeroDivisionError | OSError | ValueError | MemoryError

datatype corner = Left | Right

text \<open>
  The filter graph handed to ffmpeg (lines 126--141): with padding
  \<open>pad=vw:target_h:0:pad_y\<close> followed by \<open>overlay=pos_x:pos_y\<close>, without it the
  overlay alone.
\<close>

datatype filter_complex =
  PadOverlay int int int int int
  | Overlay int int

record ffmpeg_cmd =
  cmd_input :: string
  cmd_watermark :: image
  cmd_filter :: filter_complex
  cmd_output :: string

text \<open>
  What the outside world answers during one call of \<open>process_one_video\<close>: ffprobe,
  the Pillow calls, the three random draws and ffmpeg. \<open>Image.resize\<close> returns an
  image of the requested size, so only its pixels are the world's; the size of the
  rotated image is Pillow's (\<open>expand=True\<close>) and comes with the rotated image.
\<close>

record world =
  probe_size :: "string \<Rightarrow> exn + int \<times> int"
  pil_open :: "exn + image"
  uniform_scale :: real
  pil_resize :: "image \<Rightarrow> int \<times> int \<Rightarrow> exn + (int \<times> int \<Rightarrow> pixel)"
  uniform_angle :: real
  pil_rotate :: "image \<Rightarrow> real \<Rightarrow> exn + image"
  pil_save :: "image \<Rightarrow> exn + unit"
  choice_corner :: corner
  run_ffmpeg :: "ffmpeg_cmd \<Rightarrow> exn + unit"

section \<open>process\_one\_video\<close>

subsection \<open>Target canvas and padding (lines 67--77, 119)\<close>

definition target_h :: "int \<Rightarrow> int" where
  "target_h vw = \<lceil>real_of_int (vw * 16) / 9\<rceil>"

definition need_pad :: "int \<Rightarrow> int \<Rightarrow> bool" where
  "need_pad vw vh = (vh < target_h vw)"

definition extra :: "int \<Rightarrow> int \<Rightarrow> int" where
  "extra vw vh = target_h vw - vh"

definition pad_top :: "int \<Rightarrow> int \<Rightarrow> int" where
  "pad_top vw vh = (if need_pad vw vh then extra vw vh div 2 else 0)"

definition pad_bottom :: "int \<Rightarrow> int \<Rightarrow> int" where
  "pad_bottom vw vh = (if need_pad vw vh then extra vw vh - pad_top vw vh else 0)"

definition dest_h :: "int \<Rightarrow> int \<Rightarrow> int" where
  "dest_h vw vh = (if need_pad vw vh then target_h vw else vh)"

subsection \<open>Watermark size (lines 86--94)\<close>

text \<open>\<open>u\<close> is the draw \<open>random.uniform(-SCALE_VARIATION, SCALE_VARIATION)\<close>.\<close>

definition variation :: "real \<Rightarrow> real" where
  "variation u = 1 + u"

definition target_wm_w :: "config \<Rightarrow> int \<Rightarrow> real \<Rightarrow> int" where
  "target_wm_w cfg vw u =
     max 8 (py_int (real_of_int vw * WM_REL_WIDTH cfg * variation u))"

text \<open>Called with \<open>w0 \<noteq> 0\<close> only: the division raises ZeroDivisionError otherwise.\<close>

definition target_h_wm :: "int \<Rightarrow> int \<Rightarrow> int \<Rightarrow> int" where
  "target_h_wm h0 target_w w0 =
     max 1 (py_int (real_of_int h0 * (real_of_int target_w / real_of_int w0)))"

subsection \<open>Alpha (lines 96--100)\<close>

text \<open>
  \<open>split()[3]\<close> reads the alpha band, \<open>point\<close> maps a function over a band and
  \<open>putalpha\<close> stores a band as the image's alpha, leaving the colour bands alone.
  The lambda of line 99 is \<open>alpha_lut\<close>.
\<close>

definition split3 :: "image \<Rightarrow> (int \<times> int \<Rightarrow> nat)" where
  "split3 im = (\<lambda>xy. case im_data im xy of (r, g, b, a) \<Rightarrow> a)"

definition point :: "(nat \<Rightarrow> nat) \<Rightarrow> (int \<times> int \<Rightarrow> nat) \<Rightarrow> (int \<times> int \<Rightarrow> nat)" where
  "point f band = (\<lambda>xy. f (band xy))"

definition putalpha :: "image \<Rightarrow> (int \<times> int \<Rightarrow> nat) \<Rightarrow> image" where
  "putalpha im band =
     im\<lparr>im_data := (\<lambda>xy. case im_data im xy of (r, g, b, a) \<Rightarrow> (r, g, b, band xy))\<rparr>"

definition alpha_lut :: "config \<Rightarrow> nat \<Rightarrow> nat" where
  "alpha_lut cfg p = nat (py_int (real p * WM_OPACITY cfg))"

definition scale_alpha :: "config \<Rightarrow> image \<Rightarrow> image" where
  "scale_alpha cfg pil =
     (if WM_OPACITY cfg < 1
      then putalpha pil (point (alpha_lut cfg) (split3 pil))
      else pil)"

subsection \<open>Position (lines 112--122)\<close>

definition pos_x :: "config \<Rightarrow> corner \<Rightarrow> int \<Rightarrow> int \<Rightarrow> int" where
  "pos_x cfg c vw wm_w =
     (case c of
        Left \<Rightarrow> py_int (real_of_int vw * MARGIN_X cfg)
      | Right \<Rightarrow> py_int (real_of_int (vw - wm_w) - real_of_int vw * MARGIN_X cfg))"

definition pos_y :: "config \<Rightarrow> int \<Rightarrow> int \<Rightarrow> int" where
  "pos_y cfg dh wm_h =
     (let y = py_int (real_of_int (dh - wm_h) - real_of_int dh * MARGIN_Y cfg)
      in if y < 0 then 0 else y)"

subsection \<open>The whole function (lines 59--167)\<close>

text \<open>
  The values one call computes, kept for the theorems: the padding, the final canvas
  height, the size of the resized watermark, the processed watermark as saved, the
  overlay position and the command given to ffmpeg.
\<close>

record composition =
  c_target_h :: int
  c_need_pad :: bool
  c_pad_top :: int
  c_pad_bottom :: int
  c_dest_h :: int
  c_resized :: "int \<times> int"
  c_wm_size :: "int \<times> int"
  c_pos :: "int \<times> int"
  c_cmd :: ffmpeg_cmd

text \<open>
  How a call ends without raising: the probe failed (lines 63--65: message, return),
  ffmpeg failed (lines 161--165: message, return), or the output was written.
\<close>

datatype outcome =
  ProbeFailed exn
  | FfmpegFailed exn composition
  | Done composition

definition filter_graph :: "int \<Rightarrow> int \<Rightarrow> int \<times> int \<Rightarrow> filter_complex" where
  "filter_graph vw vh pos =
     (if need_pad vw vh
      then PadOverlay vw (target_h vw) (pad_top vw vh) (fst pos) (snd pos)
      else Overlay (fst pos) (snd pos))"

definition compose ::
  "config \<Rightarrow> world \<Rightarrow> string \<Rightarrow> string \<Rightarrow> int \<Rightarrow> int \<Rightarrow> int \<times> int \<Rightarrow> image \<Rightarrow> composition" where
  "compose cfg w input_path output_path vw vh resized pil =
     (let (wm_w, wm_h) = im_size pil;
          pos = (pos_x cfg (choice_corner w) vw wm_w, pos_y cfg (dest_h vw vh) wm_h)
      in \<lparr>c_target_h = target_h vw, c_need_pad = need_pad vw vh,
          c_pad_top = pad_top vw vh, c_pad_bottom = pad_bottom vw vh,
          c_dest_h = dest_h vw vh, c_resized = resized, c_wm_size = (wm_w, wm_h),
          c_pos = pos,
          c_cmd = \<lparr>cmd_input = input_path, cmd_watermark = pil,
                    cmd_filter = filter_graph vw vh pos, cmd_output = output_path\<rparr>\<rparr>)"

text \<open>
  \<open>Inl e\<close>: the exception \<open>e\<close> leaves the function (it is caught in \<open>main\<close>);
  \<open>Inr\<close>: the function returns.
\<close>

definition process_one_video :: "config \<Rightarrow> world \<Rightarrow> string \<Rightarrow> string \<Rightarrow> exn + outcome" where
  "process_one_video cfg w input_path output_path =
     (case probe_size w input_path of
        Inl e \<Rightarrow> Inr (ProbeFailed e)
      | Inr (vw, vh) \<Rightarrow>
          (case pil_open w of
             Inl e \<Rightarrow> Inl e
           | Inr pil0 \<Rightarrow>
               let target_w = target_wm_w cfg vw (uniform_scale w);
                   (w0, h0) = im_size pil0
               in if w0 = 0 then Inl ZeroDivisionError
                  else
                    let resized = (target_w, target_h_wm h0 target_w w0)
                    in (case pil_resize w pil0 resized of
                          Inl e \<Rightarrow> Inl e
                        | Inr px \<Rightarrow>
                            (case pil_rotate w
                                    (scale_alpha cfg \<lparr>im_size = resized, im_data = px\<rparr>)
                                    (uniform_angle w) of
                               Inl e \<Rightarrow> Inl e
                             | Inr pil \<Rightarrow>
                                 (case pil_save w pil of
                                    Inl e \<Rightarrow> Inl e
                                  | Inr u \<Rightarrow>
                                      let c = compose cfg w input_path output_path vw vh resized pil
                                      in (case run_ffmpeg w (c_cmd c) of
                                            Inl e \<Rightarrow> Inr (FfmpegFailed e c)
                                          | Inr v \<Rightarrow> Inr (Done c)))))))"

section \<open>The batch (lines 170--188)\<close>

subsection \<open>File names\<close>












subsection \<open>main\<close>






section \<open>Sample runs\<close>

text \<open>
  The watermark of the script, \<open>watermark/white.jpg\<close>, taken as a 400 x 100 image;
  converted to RGBA every pixel is opaque white.
\<close>

definition white_watermark :: image where
  "white_watermark = \<lparr>im_size = (400, 100), im_data = (\<lambda>xy. (255, 255, 255, 255))\<rparr>"

text \<open>
  A 1080 x 1920 video, no size jitter, rotation by 0 degrees (Pillow then returns a
  copy of the image, and this world is asked at that angle only), the left corner,
  and nothing fails.
\<close>

definition world_1080x1920 :: world where
  "world_1080x1920 =
     \<lparr>probe_size = (\<lambda>p. Inr (1080, 1920)),
      pil_open = Inr white_watermark,
      uniform_scale = 0,
      pil_resize = (\<lambda>im sz. Inr (im_data im)),
      uniform_angle = 0,
      pil_rotate = (\<lambda>im a. Inr im),
      pil_save = (\<lambda>im. Inr ()),
      choice_corner = Left,
      run_ffmpeg = (\<lambda>c. Inr ())\<rparr>"




section \<open>Target canvas and padding\<close>

lemma pad_sum: "need_pad vw vh \<Longrightarrow> pad_top vw vh + pad_bottom vw vh = target_h vw - vh"
  by (simp add: pad_top_def pad_bottom_def extra_def)

lemma target_h_ceiling: "target_h vw = \<lceil>real_of_int vw * 16 / 9\<rceil>"
  by (simp add: target_h_def)

text \<open>
  C5. For positive width and height with \<open>height \<ge> ceil(width * 16 / 9)\<close> no padding
  is applied: \<open>pad_top = pad_bottom = 0\<close>, the final canvas height \<open>dest_h\<close> is the
  source height, and the filter graph is the overlay alone, with no pad or crop stage.
\<close>

theorem no_padding_when_tall_enough:
  assumes "0 < vw" and "0 < vh" and "\<lceil>real_of_int vw * 16 / 9\<rceil> \<le> vh"
  shows "pad_top vw vh = 0 \<and> pad_bottom vw vh = 0 \<and> dest_h vw vh = vh \<and>
         filter_graph vw vh pos = Overlay (fst pos) (snd pos)"
proof -
  have "\<not> need_pad vw vh"
    using assms(3) by (simp add: need_pad_def target_h_ceiling)
  then show ?thesis
    by (simp add: pad_top_def pad_bottom_def dest_h_def filter_graph_def)
qed

theorem no_padding_when_tall_enough_witness:
  "(0 :: int) < 1080 \<and> (0 :: int) < 1920 \<and> \<lceil>real_of_int 1080 * 16 / 9\<rceil> \<le> (1920 :: int) \<and>
   pad_top 1080 1920 = 0 \<and> pad_bottom 1080 1920 = 0 \<and> dest_h 1080 1920 = 1920 \<and>
   filter_graph 1080 1920 (54, 893) = Overlay 54 893 \<and>
   pad_top 1080 2400 = 0 \<and> pad_bottom 1080 2400 = 0 \<and> dest_h 1080 2400 = 2400"
  using no_padding_when_tall_enough [of 1080 1920 "(54, 893)"]
    no_padding_when_tall_enough [of 1080 2400 "(54, 893)"]
  by simp

text \<open>
  C6. For positive width and height with \<open>height < ceil(width * 16 / 9)\<close> the two
  bars add up to the missing height exactly, \<open>pad_top + pad_bottom = target_h - height\<close>,
  and \<open>pad_top\<close> is \<open>pad_bottom\<close> or one less.
\<close>

theorem padding_split:
  assumes "0 < vw" and "0 < vh" and "vh < \<lceil>real_of_int vw * 16 / 9\<rceil>"
  shows "pad_top vw vh + pad_bottom vw vh = target_h vw - vh \<and>
         (pad_top vw vh = pad_bottom vw vh \<or> pad_top vw vh = pad_bottom vw vh - 1)"
proof -
  have pad: "need_pad vw vh"
    using assms(3) by (simp add: need_pad_def target_h_ceiling)
  then have top: "pad_top vw vh = extra vw vh div 2"
    and bottom: "pad_bottom vw vh = extra vw vh - extra vw vh div 2"
    by (simp_all add: pad_top_def pad_bottom_def)
  have "pad_top vw vh = pad_bottom vw vh \<or> pad_top vw vh = pad_bottom vw vh - 1"
    unfolding top bottom by presburger
  with pad_sum [OF pad] show ?thesis
    by (rule conjI)
qed

theorem padding_split_witness:
  "(0 :: int) < 1080 \<and> (0 :: int) < 1351 \<and> (1351 :: int) < \<lceil>real_of_int 1080 * 16 / 9\<rceil> \<and>
   pad_top 1080 1351 + pad_bottom 1080 1351 = target_h 1080 - 1351 \<and>
   (pad_top 1080 1351 = pad_bottom 1080 1351 \<or> pad_top 1080 1351 = pad_bottom 1080 1351 - 1)"
  using padding_split [of 1080 1351] by simp

section \<open>Truncation\<close>

lemma py_int_nonneg: "0 \<le> x \<Longrightarrow> py_int x = \<lfloor>x\<rfloor>"
  by (simp add: py_int_def)


lemma py_int_floor_or_ceiling: "py_int x = \<lfloor>x\<rfloor> \<or> py_int x = \<lceil>x\<rceil>"
  by (simp add: py_int_def)

lemma py_int_of_int_diff: "py_int (real_of_int n - t) = n - \<lfloor>t\<rfloor> \<or> py_int (real_of_int n - t) = n - \<lceil>t\<rceil>"
proof -
  have "\<lfloor>real_of_int n - t\<rfloor> = n - \<lceil>t\<rceil>" by linarith
  moreover have "\<lceil>real_of_int n - t\<rceil> = n - \<lfloor>t\<rfloor>" by linarith
  ultimately show ?thesis using py_int_floor_or_ceiling [of "real_of_int n - t"] by auto
qed

lemma nearest_between:
  fixes r :: int
  assumes "\<bar>real_of_int r - t\<bar> \<le> 1 / 2"
  shows "\<lfloor>t\<rfloor> \<le> r \<and> r \<le> \<lceil>t\<rceil>"
proof
  have "t < real_of_int r + 1" using assms by linarith
  then show "\<lfloor>t\<rfloor> \<le> r" by (simp add: floor_le_iff)
next
  have "real_of_int r - 1 < t" using assms by linarith
  then show "r \<le> \<lceil>t\<rceil>" by (simp add: le_ceiling_iff)
qed

lemma ceiling_le_floor_add1: "\<lceil>t :: real\<rceil> \<le> \<lfloor>t\<rfloor> + 1"
  by linarith

lemma py_int_sign: "0 \<le> x \<Longrightarrow> 0 \<le> py_int x"
  by (simp add: py_int_def)

lemma pos_y_nonneg: "0 \<le> pos_y cfg dh wm_h"
  by (simp add: pos_y_def Let_def)

section \<open>Watermark width\<close>




section \<open>Overlay position\<close>

text \<open>
  C3, as the code has it. \<open>y\<close> is never negative. \<open>x\<close> is truncated, not rounded:
  \<open>int(vw * MARGIN_X)\<close> at the left and \<open>int(vw - wm_w - vw * MARGIN_X)\<close> at the
  right. At the left \<open>x\<close> is the floor of the margin and not negative when the margin
  is not negative; at the right \<open>x\<close> is not negative when the watermark fits left of
  the margin. Both stay within 1 of the claimed values, whichever nearest integer \<open>r\<close>
  the rounding of the margin picks.
\<close>

theorem pos_truncates:
  "0 \<le> pos_y cfg dh wm_h \<and>
   pos_x cfg Left vw wm_w = py_int (real_of_int vw * MARGIN_X cfg) \<and>
   pos_x cfg Right vw wm_w =
     py_int (real_of_int vw - real_of_int wm_w - real_of_int vw * MARGIN_X cfg) \<and>
   (0 \<le> real_of_int vw * MARGIN_X cfg \<longrightarrow>
      0 \<le> pos_x cfg Left vw wm_w \<and>
      pos_x cfg Left vw wm_w = \<lfloor>real_of_int vw * MARGIN_X cfg\<rfloor>) \<and>
   (real_of_int wm_w \<le> real_of_int vw - real_of_int vw * MARGIN_X cfg \<longrightarrow>
      0 \<le> pos_x cfg Right vw wm_w) \<and>
   (\<forall>r :: int. \<bar>real_of_int r - real_of_int vw * MARGIN_X cfg\<bar> \<le> 1 / 2 \<longrightarrow>
      \<bar>pos_x cfg Left vw wm_w - r\<bar> \<le> 1 \<and>
      \<bar>pos_x cfg Right vw wm_w - (vw - wm_w - r)\<bar> \<le> 1)"
proof -
  define t where "t = real_of_int vw * MARGIN_X cfg"
  have left: "pos_x cfg Left vw wm_w = py_int t"
    by (simp add: pos_x_def t_def)
  have right: "pos_x cfg Right vw wm_w = py_int (real_of_int (vw - wm_w) - t)"
    by (simp add: pos_x_def t_def)
  have fit: "0 \<le> pos_x cfg Right vw wm_w" if "real_of_int wm_w \<le> real_of_int vw - t"
  proof -
    have "0 \<le> real_of_int (vw - wm_w) - t" using that by simp
    then show ?thesis unfolding right by (rule py_int_sign)
  qed
  have near: "\<bar>pos_x cfg Left vw wm_w - r\<bar> \<le> 1 \<and>
      \<bar>pos_x cfg Right vw wm_w - (vw - wm_w - r)\<bar> \<le> 1"
    if r: "\<bar>real_of_int r - t\<bar> \<le> 1 / 2" for r :: int
  proof -
    have b: "\<lfloor>t\<rfloor> \<le> r" "r \<le> \<lceil>t\<rceil>" "\<lceil>t\<rceil> \<le> \<lfloor>t\<rfloor> + 1"
      using nearest_between [OF r] ceiling_le_floor_add1 [of t] by simp_all
    have "\<bar>py_int t - r\<bar> \<le> 1"
      using py_int_floor_or_ceiling [of t] b by linarith
    moreover have "\<bar>py_int (real_of_int (vw - wm_w) - t) - (vw - wm_w - r)\<bar> \<le> 1"
      using py_int_of_int_diff [of "vw - wm_w" t] b by linarith
    ultimately show ?thesis by (simp add: left right)
  qed
  show ?thesis
    using pos_y_nonneg [of cfg dh wm_h] fit near
    by (simp add: left right t_def [symmetric] py_int_nonneg)
qed

theorem pos_truncates_witness:
  "0 \<le> real_of_int 1080 * MARGIN_X module_config \<and>
   real_of_int 270 \<le> real_of_int 1080 - real_of_int 1080 * MARGIN_X module_config \<and>
   \<bar>real_of_int 54 - real_of_int 1080 * MARGIN_X module_config\<bar> \<le> 1 / 2 \<and>
   0 \<le> pos_y module_config 1920 67 \<and>
   0 \<le> pos_x module_config Left 1080 270 \<and>
   pos_x module_config Left 1080 270 = \<lfloor>real_of_int 1080 * MARGIN_X module_config\<rfloor> \<and>
   0 \<le> pos_x module_config Right 1080 270 \<and>
   \<bar>pos_x module_config Left 1080 270 - 54\<bar> \<le> 1 \<and>
   \<bar>pos_x module_config Right 1080 270 - (1080 - 270 - 54)\<bar> \<le> 1"
proof -
  have a: "0 \<le> real_of_int 1080 * MARGIN_X module_config"
    by (simp add: module_config_def)
  have b: "real_of_int 270 \<le> real_of_int 1080 - real_of_int 1080 * MARGIN_X module_config"
    by (simp add: module_config_def)
  have c: "\<bar>real_of_int 54 - real_of_int 1080 * MARGIN_X module_config\<bar> \<le> 1 / 2"
    by (simp add: module_config_def)
  note t = pos_truncates [of module_config 1920 67 1080 270]
  from t have d: "0 \<le> pos_y module_config 1920 67" by blast
  from t a have e: "0 \<le> pos_x module_config Left 1080 270 \<and>
      pos_x module_config Left 1080 270 = \<lfloor>real_of_int 1080 * MARGIN_X module_config\<rfloor>"
    by blast
  from t b have f: "0 \<le> pos_x module_config Right 1080 270" by blast
  from t c have g: "\<bar>pos_x module_config Left 1080 270 - 54\<bar> \<le> 1 \<and>
      \<bar>pos_x module_config Right 1080 270 - (1080 - 270 - 54)\<bar> \<le> 1"
    by blast
  from a b c d e f g show ?thesis by blast
qed

text \<open>
  C3 as stated fails: at canvas width 36 the left \<open>x\<close> is 1 and the rounded margin 2;
  at canvas width 28 and watermark width 8 the right \<open>x\<close> is 18 and the claimed value
  19; at canvas width 4 and watermark width 8 the right \<open>x\<close> is negative.
\<close>

theorem pos_round_counterexample:
  "pos_x module_config Left 36 8 = 1 \<and>
   round (real_of_int 36 * MARGIN_X module_config) = (2 :: int) \<and>
   pos_x module_config Right 28 8 = 18 \<and>
   28 - 8 - round (real_of_int 28 * MARGIN_X module_config) = (19 :: int) \<and>
   pos_x module_config Right 4 8 = - 4"
  by (simp add: pos_x_def module_config_def py_int_def round_def)

section \<open>Alpha scaling\<close>

lemma alpha_lut_floor:
  assumes "0 \<le> WM_OPACITY cfg"
  shows "alpha_lut cfg p = nat \<lfloor>real p * WM_OPACITY cfg\<rfloor>"
  using assms by (simp add: alpha_lut_def py_int_nonneg)

lemma alpha_lut_le:
  assumes "0 \<le> WM_OPACITY cfg" and "WM_OPACITY cfg \<le> 1"
  shows "alpha_lut cfg p \<le> p"
proof -
  have "real p * WM_OPACITY cfg \<le> real p * 1"
    using assms(2) by (intro mult_left_mono) simp_all
  then have "\<lfloor>real p * WM_OPACITY cfg\<rfloor> \<le> \<lfloor>real p\<rfloor>"
    by (intro floor_mono) simp
  then have "nat \<lfloor>real p * WM_OPACITY cfg\<rfloor> \<le> nat \<lfloor>real p\<rfloor>"
    by (rule nat_mono)
  then show ?thesis
    using assms(1) by (simp add: alpha_lut_floor)
qed

lemma split3_scale_alpha:
  "split3 (scale_alpha cfg pil) xy =
     (if WM_OPACITY cfg < 1 then alpha_lut cfg (split3 pil xy) else split3 pil xy)"
  by (simp add: scale_alpha_def putalpha_def point_def split3_def split: prod.splits)

lemma rgb_scale_alpha:
  "(case im_data (scale_alpha cfg pil) xy of (r, g, b, a) \<Rightarrow> (r, g, b)) =
   (case im_data pil xy of (r, g, b, a) \<Rightarrow> (r, g, b))"
  by (simp add: scale_alpha_def putalpha_def split: prod.splits)

lemma size_scale_alpha: "im_size (scale_alpha cfg pil) = im_size pil"
  by (simp add: scale_alpha_def putalpha_def)

text \<open>
  C7. With opacity 1 the alpha step returns the image as it is. With an opacity
  strictly between 0 and 1 the alpha of every pixel becomes the floor of alpha times
  opacity, which is at most the alpha before. The colour channels and the size stay
  as they are, whatever the opacity.
\<close>

theorem scale_alpha_identity_and_monotone:
  "(WM_OPACITY cfg = 1 \<longrightarrow> scale_alpha cfg pil = pil) \<and>
   (0 < WM_OPACITY cfg \<and> WM_OPACITY cfg < 1 \<longrightarrow>
      (\<forall>xy. split3 (scale_alpha cfg pil) xy = nat \<lfloor>real (split3 pil xy) * WM_OPACITY cfg\<rfloor> \<and>
            split3 (scale_alpha cfg pil) xy \<le> split3 pil xy)) \<and>
   (\<forall>xy. (case im_data (scale_alpha cfg pil) xy of (r, g, b, a) \<Rightarrow> (r, g, b)) =
         (case im_data pil xy of (r, g, b, a) \<Rightarrow> (r, g, b))) \<and>
   im_size (scale_alpha cfg pil) = im_size pil"
proof (intro conjI impI allI)
  assume "WM_OPACITY cfg = 1"
  then show "scale_alpha cfg pil = pil" by (simp add: scale_alpha_def)
next
  fix xy
  assume o: "0 < WM_OPACITY cfg \<and> WM_OPACITY cfg < 1"
  then show "split3 (scale_alpha cfg pil) xy = nat \<lfloor>real (split3 pil xy) * WM_OPACITY cfg\<rfloor>"
    by (simp add: split3_scale_alpha alpha_lut_floor)
  show "split3 (scale_alpha cfg pil) xy \<le> split3 pil xy"
    using o by (simp add: split3_scale_alpha alpha_lut_le)
next
  fix xy
  show "(case im_data (scale_alpha cfg pil) xy of (r, g, b, a) \<Rightarrow> (r, g, b)) =
        (case im_data pil xy of (r, g, b, a) \<Rightarrow> (r, g, b))"
    by (rule rgb_scale_alpha)
next
  show "im_size (scale_alpha cfg pil) = im_size pil"
    by (rule size_scale_alpha)
qed

theorem scale_alpha_identity_and_monotone_witness:
  "WM_OPACITY (module_config\<lparr>WM_OPACITY := 1\<rparr>) = 1 \<and>
   scale_alpha (module_config\<lparr>WM_OPACITY := 1\<rparr>) white_watermark = white_watermark \<and>
   0 < WM_OPACITY module_config \<and> WM_OPACITY module_config < 1 \<and>
   split3 white_watermark (0, 0) = 255 \<and>
   split3 (scale_alpha module_config white_watermark) (0, 0) = 25 \<and>
   split3 (scale_alpha module_config white_watermark) (0, 0) \<le> split3 white_watermark (0, 0) \<and>
   (case im_data (scale_alpha module_config white_watermark) (0, 0) of (r, g, b, a) \<Rightarrow> (r, g, b)) =
     (255, 255, 255)"
proof -
  have a: "WM_OPACITY (module_config\<lparr>WM_OPACITY := 1\<rparr>) = 1" by simp
  have b: "0 < WM_OPACITY module_config \<and> WM_OPACITY module_config < 1"
    by (simp add: module_config_def)
  have c: "split3 white_watermark (0, 0) = 255"
    by (simp add: split3_def white_watermark_def)
  have d: "(case im_data white_watermark (0, 0) of (r, g, b, a) \<Rightarrow> (r, g, b)) = (255, 255, 255)"
    by (simp add: white_watermark_def)
  have e: "nat \<lfloor>real 255 * WM_OPACITY module_config\<rfloor> = 25"
    by (simp add: module_config_def)
  note t1 = scale_alpha_identity_and_monotone [of "module_config\<lparr>WM_OPACITY := 1\<rparr>" white_watermark]
  note t2 = scale_alpha_identity_and_monotone [of module_config white_watermark]
  from t1 a have f: "scale_alpha (module_config\<lparr>WM_OPACITY := 1\<rparr>) white_watermark = white_watermark"
    by blast
  from t2 b have g: "split3 (scale_alpha module_config white_watermark) (0, 0) =
        nat \<lfloor>real (split3 white_watermark (0, 0)) * WM_OPACITY module_config\<rfloor> \<and>
      split3 (scale_alpha module_config white_watermark) (0, 0) \<le> split3 white_watermark (0, 0)"
    by blast
  from t2 have h: "(case im_data (scale_alpha module_config white_watermark) (0, 0) of (r, g, b, a) \<Rightarrow> (r, g, b)) =
      (case im_data white_watermark (0, 0) of (r, g, b, a) \<Rightarrow> (r, g, b))"
    by blast
  from g c e have i: "split3 (scale_alpha module_config white_watermark) (0, 0) = 25" by simp
  from a b c d f g h i show ?thesis by simp
qed

section \<open>One video\<close>


lemma compose_plan:
  "c_target_h (compose cfg w inp out vw vh resized pil) = target_h vw \<and>
   c_need_pad (compose cfg w inp out vw vh resized pil) = need_pad vw vh \<and>
   c_pad_top (compose cfg w inp out vw vh resized pil) = pad_top vw vh \<and>
   c_pad_bottom (compose cfg w inp out vw vh resized pil) = pad_bottom vw vh \<and>
   c_dest_h (compose cfg w inp out vw vh resized pil) = dest_h vw vh \<and>
   c_resized (compose cfg w inp out vw vh resized pil) = resized \<and>
   c_wm_size (compose cfg w inp out vw vh resized pil) = im_size pil \<and>
   c_pos (compose cfg w inp out vw vh resized pil) =
     (pos_x cfg (choice_corner w) vw (fst (im_size pil)),
      pos_y cfg (dest_h vw vh) (snd (im_size pil)))"
  by (simp add: compose_def Let_def split: prod.splits)










lemma world_1080x1920_run:
  "process_one_video module_config world_1080x1920 inp out =
     Inr (Done (compose module_config world_1080x1920 inp out 1080 1920 (270, 67)
       (scale_alpha module_config \<lparr>im_size = (270, 67), im_data = im_data white_watermark\<rparr>)))"
proof -
  have tw: "target_wm_w module_config 1080 0 = 270"
    by (simp add: target_wm_w_def variation_def module_config_def py_int_def)
  have th: "target_h_wm 100 270 400 = 67"
    by (simp add: target_h_wm_def py_int_def)
  show ?thesis
    by (simp add: process_one_video_def world_1080x1920_def white_watermark_def Let_def tw th)
qed

lemma plan_1080x1920:
  "target_h 1080 = 1920 \<and> \<not> need_pad 1080 1920 \<and> pad_top 1080 1920 = 0 \<and>
   pad_bottom 1080 1920 = 0 \<and> dest_h 1080 1920 = 1920"
  by (simp add: target_h_def need_pad_def pad_top_def pad_bottom_def dest_h_def)

lemma pos_1080x1920:
  "pos_x module_config Left 1080 270 = 54 \<and> pos_y module_config 1920 67 = 893"
  by (simp add: pos_x_def pos_y_def module_config_def py_int_def Let_def)

lemma corner_1080x1920: "choice_corner world_1080x1920 = Left"
  by (simp add: world_1080x1920_def)

text \<open>
  C2, as the code has it. A 1080 x 1920 video, the 400 x 100 watermark, width fraction
  0.25, no jitter, rotation by 0 degrees, left corner, margins 0.05 and 0.5: the target
  height is 1920 with no bars; the watermark is resized to 270 x 67, since
  \<open>int(100 * (270 / 400))\<close> truncates 67.5; its size after the rotation is 270 x 67;
  the overlay is at \<open>x = 54\<close>, \<open>y = int(1920 - 67 - 960) = 893\<close>.
\<close>

theorem scenario_1080x1920:
  "(case process_one_video module_config world_1080x1920 ''videos/clip.mp4'' ''output/clip_wm.mp4'' of
      Inr (Done c) \<Rightarrow>
        c_target_h c = 1920 \<and> c_pad_top c = 0 \<and> c_pad_bottom c = 0 \<and> c_dest_h c = 1920 \<and>
        c_resized c = (270, 67) \<and> c_wm_size c = (270, 67) \<and> c_pos c = (54, 893)
    | _ \<Rightarrow> False)"
  unfolding world_1080x1920_run
  by (simp add: compose_plan plan_1080x1920 pos_1080x1920 corner_1080x1920 scale_alpha_def putalpha_def)

text \<open>
  C2 as stated fails on the same run: the height of the resized and of the rotated
  watermark is 67, not 68, and \<open>y\<close> is 893, not 892.
\<close>

theorem scenario_1080x1920_counterexample:
  "(case process_one_video module_config world_1080x1920 ''videos/clip.mp4'' ''output/clip_wm.mp4'' of
      Inr (Done c) \<Rightarrow>
        snd (c_resized c) = 67 \<and> snd (c_resized c) \<noteq> 68 \<and>
        snd (c_wm_size c) = 67 \<and> snd (c_wm_size c) \<noteq> 68 \<and>
        snd (c_pos c) = 893 \<and> snd (c_pos c) \<noteq> 892
    | _ \<Rightarrow> False)"
  unfolding world_1080x1920_run
  by (simp add: compose_plan plan_1080x1920 pos_1080x1920 corner_1080x1920 scale_alpha_def putalpha_def)

section \<open>The extension filter\<close>















section \<open>The batch\<close>














end
